theory Spec2Isabelle
  imports Complex_Main
begin

section \<open>JavaScript values\<close>

text \<open>
  The controller stores whatever the backend sends (\<^verbatim>\<open>setResult(response.data)\<close>) and tests
  it with JavaScript truthiness (\<^verbatim>\<open>response.data.success\<close>, \<^verbatim>\<open>!result\<close>, \<^verbatim>\<open>a || b\<close>), so the
  values are modelled as parsed JSON together with \<^verbatim>\<open>undefined\<close>. An object is the list of
  its own properties.
\<close>

datatype jsval =
    JUndefined
  | JNull
  | JBool bool
  | JNum rat
  | JStr string
  | JArr "jsval list"
  | JObj "(string \<times> jsval) list"

fun truthy :: "jsval \<Rightarrow> bool" where
  "truthy JUndefined = False"
| "truthy JNull = False"
| "truthy (JBool b) = b"
| "truthy (JNum q) = (q \<noteq> 0)"
| "truthy (JStr s) = (s \<noteq> [])"
| "truthy (JArr xs) = True"
| "truthy (JObj ps) = True"

text \<open>\<^verbatim>\<open>a || b\<close>: the left operand when it is truthy, the right one otherwise.\<close>

definition js_or :: "jsval \<Rightarrow> jsval \<Rightarrow> jsval" where
  "js_or a b = (if truthy a then a else b)"

fun nullish :: "jsval \<Rightarrow> bool" where
  "nullish JUndefined = True"
| "nullish JNull = True"
| "nullish v = False"

text \<open>
  Reading a named property of a value that is not nullish: an object yields the property or
  \<^verbatim>\<open>undefined\<close>; the primitives and arrays have none of the names read here. Reading a
  property of \<^verbatim>\<open>null\<close> or \<^verbatim>\<open>undefined\<close> raises a TypeError, which every caller below handles
  before it calls \<open>get_prop\<close>.
\<close>

fun get_prop :: "jsval \<Rightarrow> string \<Rightarrow> jsval" where
  "get_prop (JObj ps) k = (case map_of ps k of Some v \<Rightarrow> v | None \<Rightarrow> JUndefined)"
| "get_prop v k = JUndefined"

text \<open>
  A thrown value: an \<^verbatim>\<open>Error\<close> with its message and, for an axios error that carries an HTTP
  response, the body of that response (\<^verbatim>\<open>err.response.data\<close>).
\<close>

record js_error =
  message :: string
  response :: "jsval option"

definition Error :: "string \<Rightarrow> js_error" where
  "Error m = \<lparr>message = m, response = None\<rparr>"

text \<open>\<^verbatim>\<open>err.response?.data?.error\<close>\<close>

definition server_error :: "js_error \<Rightarrow> jsval" where
  "server_error e =
     (case response e of
        None \<Rightarrow> JUndefined
      | Some d \<Rightarrow> if nullish d then JUndefined else get_prop d ''error'')"

section \<open>Browser objects and the outcomes of the awaited calls\<close>

type_synonym media_stream = nat

record video_el =
  readyState :: nat
  videoWidth :: nat
  videoHeight :: nat
  srcObject :: "media_stream option"

definition HAVE_ENOUGH_DATA :: nat where
  "HAVE_ENOUGH_DATA = 4"

text \<open>The canvas element; \<open>context2d\<close> tells whether \<^verbatim>\<open>getContext('2d')\<close> returns a context.\<close>

record canvas_el =
  context2d :: bool

record blob =
  bsize :: nat

text \<open>
  The settlement of \<^verbatim>\<open>navigator.mediaDevices.getUserMedia\<close>: a stream, or the rejection. A
  browser without \<^verbatim>\<open>mediaDevices\<close> is outside the model.
\<close>

datatype camera_outcome = Granted media_stream | Denied js_error

text \<open>\<^verbatim>\<open>axios.post\<close> resolves with a response, of which only \<^verbatim>\<open>data\<close> is read, or rejects.\<close>

datatype axios_outcome = Resolved jsval | Rejected js_error

text \<open>
  What one invocation of \<^verbatim>\<open>captureAndAnalyze\<close> meets: the two elements it looks up, the
  TypeError the engine raises on a property access of \<^verbatim>\<open>null\<close>, the argument that
  \<^verbatim>\<open>canvas.toBlob\<close> passes to its callback, the settlement of the POST, the video element
  that \<^verbatim>\<open>stopCamera\<close> of the first component finds by its own lookup after the reply, and
  the build-time value of \<^verbatim>\<open>REACT_APP_API_URL\<close>.
\<close>

record capture_env =
  video :: "video_el option"
  canvas :: "canvas_el option"
  null_deref :: js_error
  encoded :: "blob option"
  reply :: axios_outcome
  video_on_stop :: "video_el option"
  api_env :: "string option"

text \<open>\<^verbatim>\<open>process.env.REACT_APP_API_URL || 'https://...'\<close>\<close>

definition API_URL :: "string option \<Rightarrow> string" where
  "API_URL v =
     (case v of
        None \<Rightarrow> ''https://food-recognition-backend-rzsl.onrender.com''
      | Some u \<Rightarrow> if u \<noteq> [] then u else ''https://food-recognition-backend-rzsl.onrender.com'')"

text \<open>
  The effects on the world outside the component, in the order they happen:
  the multipart POST (URL, field \<^verbatim>\<open>image\<close> with the blob, file name, timeout in ms),
  stopping every track of a stream, binding a stream to the video element,
  and the click on a temporary download link (time stamp of the file name, the parts and
  the type passed to \<^verbatim>\<open>new Blob\<close>).
\<close>

datatype effect =
    Post string blob string nat
  | StopTracks media_stream
  | SetSrcObject media_stream
  | Play
  | Save nat "jsval list" string

section \<open>Controller state\<close>

text \<open>
  The file holds two \<^verbatim>\<open>App\<close> components. The first (lines 7 to 311) keeps four state cells and
  reaches the video element with \<^verbatim>\<open>document.getElementById\<close>; the second (lines 321 to 626)
  adds the cell \<open>stream\<close> and uses refs. Operations of the first carry the suffix 1, those of
  the second the suffix 2; \<open>reset\<close> and \<open>downloadReceipt\<close> have the same text in both.
  State setters are applied in program order; \<open>trace\<close> records the effects.
\<close>

record world =
  capturing :: bool
  analyzing :: bool
  result :: jsval
  error :: jsval
  trace :: "effect list"

record world2 = world +
  stream :: "media_stream option"

definition init1 :: world where
  "init1 = \<lparr>capturing = False, analyzing = False, result = JNull, error = JNull, trace = []\<rparr>"

definition init2 :: world2 where
  "init2 = \<lparr>capturing = False, analyzing = False, result = JNull, error = JNull, trace = [],
            stream = None\<rparr>"

definition emit :: "effect \<Rightarrow> 'a world_scheme \<Rightarrow> 'a world_scheme" where
  "emit e w = w\<lparr>trace := trace w @ [e]\<rparr>"

subsection \<open>Operations with the same text in both components\<close>

text \<open>Lines 124 to 127 and 445 to 448.\<close>

definition reset :: "'a world_scheme \<Rightarrow> 'a world_scheme" where
  "reset w = w\<lparr>result := JNull, error := JNull\<rparr>"

text \<open>Lines 110 to 122 and 431 to 443; \<open>now\<close> is the value of \<^verbatim>\<open>Date.now()\<close>.\<close>

definition downloadReceipt :: "nat \<Rightarrow> 'a world_scheme \<Rightarrow> 'a world_scheme" where
  "downloadReceipt now w =
     (if \<not> truthy (result w) then w
      else emit (Save now [get_prop (result w) ''receipt_html''] ''text/html'') w)"

subsection \<open>The rendered view\<close>

text \<open>
  The buttons the JSX renders (lines 142 to 302 and 463 to 617, the same conditions in both
  components) and the state in which each is rendered and not disabled.
\<close>

datatype button = StartCameraBtn | CaptureBtn | CancelBtn | TryAgainBtn | DownloadBtn | NewScanBtn

fun offered :: "button \<Rightarrow> 'a world_scheme \<Rightarrow> bool" where
  "offered StartCameraBtn w = (\<not> capturing w \<and> \<not> truthy (result w))"
| "offered CaptureBtn w = (capturing w \<and> \<not> truthy (result w) \<and> \<not> analyzing w)"
| "offered CancelBtn w = (capturing w \<and> \<not> truthy (result w) \<and> \<not> analyzing w)"
| "offered TryAgainBtn w = truthy (error w)"
| "offered DownloadBtn w = truthy (result w)"
| "offered NewScanBtn w = truthy (result w)"







section \<open>Second component (lines 321 to 626)\<close>

text \<open>
  \<open>startCamera\<close>, lines 339 to 354. \<open>out\<close> is the settlement of \<^verbatim>\<open>getUserMedia\<close>, \<open>ref\<close> tells
  whether \<^verbatim>\<open>videoRef.current\<close> is set.
\<close>

definition startCamera2 :: "camera_outcome \<Rightarrow> bool \<Rightarrow> world2 \<Rightarrow> world2" where
  "startCamera2 out ref w =
     (let w1 = w\<lparr>error := JNull\<rparr> in
      case out of
        Granted m \<Rightarrow>
          (let w2 = w1\<lparr>stream := Some m\<rparr>;
               w3 = (if ref then emit (SetSrcObject m) w2 else w2)
           in w3\<lparr>capturing := True\<rparr>)
      | Denied e \<Rightarrow>
          w1\<lparr>error :=
               JStr ''Failed to access camera. Please ensure camera permissions are granted.''\<rparr>)"

text \<open>
  \<open>stopCamera\<close>, lines 356 to 362. It reads \<open>stream\<close> through the closure of the render that
  created the handler. Here it is applied to the state of that render; the event loop
  below hands a submission that was suspended in between the value it closed over.
\<close>

definition stopCamera2 :: "world2 \<Rightarrow> world2" where
  "stopCamera2 w =
     (let w1 = (case stream w of
                  Some m \<Rightarrow> (emit (StopTracks m) w)\<lparr>stream := None\<rparr>
                | None \<Rightarrow> w)
      in w1\<lparr>capturing := False\<rparr>)"

text \<open>
  The effect of lines 331 to 337: after a render in which \<open>stream\<close> has changed, the cleanup
  of the previous render stops the tracks of the stream it closed over.
\<close>

definition commit2 :: "world2 \<Rightarrow> world2 \<Rightarrow> world2" where
  "commit2 old cur =
     (if stream cur = stream old then cur
      else case stream old of Some m \<Rightarrow> emit (StopTracks m) cur | None \<Rightarrow> cur)"

text \<open>
  \<open>captureAndAnalyze\<close>, lines 364 to 429, runs in three stretches separated by its two
  \<^verbatim>\<open>await\<close>s: up to the call of \<^verbatim>\<open>toBlob\<close>, from the encoded blob to the POST, and from the
  settlement of the POST to the end. \<open>Encoding\<close> and \<open>Uploading\<close> are the two suspended
  states.
\<close>

datatype 'w progress = Finished 'w | Encoding 'w | Uploading 'w

fun world_of :: "'w progress \<Rightarrow> 'w" where
  "world_of (Finished w) = w"
| "world_of (Encoding w) = w"
| "world_of (Uploading w) = w"

text \<open>The \<^verbatim>\<open>catch\<close> block of lines 423 to 425 followed by the \<^verbatim>\<open>finally\<close> of line 427.\<close>

definition caught2 :: "js_error \<Rightarrow> world2 \<Rightarrow> world2" where
  "caught2 e w =
     w\<lparr>error := js_or (JStr (message e))
                  (js_or (server_error e) (JStr ''Failed to analyze. Please try again.'')),
       analyzing := False\<rparr>"

definition begin2 :: "capture_env \<Rightarrow> world2 \<Rightarrow> world2 progress" where
  "begin2 env w =
     (case (video env, canvas env) of
        (Some v, Some c) \<Rightarrow>
          if readyState v \<noteq> HAVE_ENOUGH_DATA
          then Finished (w\<lparr>error := JStr ''Video not ready. Please wait a moment.''\<rparr>)
          else
            (let w1 = w\<lparr>analyzing := True, error := JNull, result := JNull\<rparr> in
             if videoWidth v = 0 \<or> videoHeight v = 0
             then Finished (caught2 (Error ''Invalid video dimensions'') w1)
             else if \<not> context2d c then Finished (caught2 (null_deref env) w1)
             else Encoding w1)
      | _ \<Rightarrow> Finished (w\<lparr>error := JStr ''Camera not ready''\<rparr>))"

definition post_request :: "capture_env \<Rightarrow> blob \<Rightarrow> effect" where
  "post_request env b = Post (API_URL (api_env env) @ ''/analyze'') b ''capture.jpg'' 30000"

definition encoded2 :: "capture_env \<Rightarrow> world2 \<Rightarrow> world2 progress" where
  "encoded2 env w =
     (case encoded env of
        Some b \<Rightarrow>
          if bsize b > 0 then Uploading (emit (post_request env b) w)
          else Finished (caught2 (Error ''Failed to capture photo'') w)
      | None \<Rightarrow> Finished (caught2 (Error ''Failed to capture photo'') w))"

definition replied2 :: "capture_env \<Rightarrow> world2 \<Rightarrow> world2" where
  "replied2 env w =
     (case reply env of
        Resolved d \<Rightarrow>
          if nullish d then caught2 (null_deref env) w
          else if truthy (get_prop d ''success'')
          then (stopCamera2 (w\<lparr>result := d\<rparr>))\<lparr>analyzing := False\<rparr>
          else w\<lparr>error := JStr ''Failed to analyze image'', analyzing := False\<rparr>
      | Rejected e \<Rightarrow> caught2 e w)"

text \<open>One suspended stretch is resumed when the promise it awaits settles.\<close>

fun resume2 :: "capture_env \<Rightarrow> world2 progress \<Rightarrow> world2 progress" where
  "resume2 env (Finished w) = Finished w"
| "resume2 env (Encoding w) = encoded2 env w"
| "resume2 env (Uploading w) = Finished (replied2 env w)"

definition captureAndAnalyze2 :: "capture_env \<Rightarrow> world2 \<Rightarrow> world2" where
  "captureAndAnalyze2 env w = world_of (resume2 env (resume2 env (begin2 env w)))"

section \<open>First component (lines 7 to 311)\<close>

text \<open>\<open>startCamera\<close>, lines 38 to 41.\<close>

definition startCamera1 :: "world \<Rightarrow> world" where
  "startCamera1 w = w\<lparr>error := JNull, capturing := True\<rparr>"

text \<open>
  The effect of lines 13 to 36, run after the render in which \<open>capturing\<close> became true.
  \<open>vid\<close> is what \<^verbatim>\<open>getElementById('video')\<close> returned; a TypeError raised by the \<^verbatim>\<open>then\<close>
  callback on a missing element reaches the \<^verbatim>\<open>catch\<close> callback like a rejection does.
\<close>

definition camera_failed1 :: "world \<Rightarrow> world" where
  "camera_failed1 w =
     w\<lparr>error := JStr ''Failed to access camera. Please ensure camera permissions are granted.'',
       capturing := False\<rparr>"

definition camera_effect1 :: "video_el option \<Rightarrow> camera_outcome \<Rightarrow> world \<Rightarrow> world" where
  "camera_effect1 vid out w =
     (case out of
        Granted m \<Rightarrow>
          (case vid of
             Some v \<Rightarrow> emit Play (emit (SetSrcObject m) w)
           | None \<Rightarrow> camera_failed1 w)
      | Denied e \<Rightarrow> camera_failed1 w)"

text \<open>
  The cleanup of lines 30 to 34, run when \<open>capturing\<close> turns false, with the element that
  the effect found. It reads \<^verbatim>\<open>video.srcObject\<close> without a guard: for a missing element the
  TypeError leaves the cleanup, which is the result \<open>None\<close>.
\<close>

definition cleanup1 :: "video_el option \<Rightarrow> world \<Rightarrow> world option" where
  "cleanup1 vid w =
     (case vid of
        None \<Rightarrow> None
      | Some v \<Rightarrow> Some (case srcObject v of Some m \<Rightarrow> emit (StopTracks m) w | None \<Rightarrow> w))"

text \<open>\<open>stopCamera\<close>, lines 43 to 49, with its guard \<^verbatim>\<open>video && video.srcObject\<close>.\<close>

definition stop_tracks_of :: "video_el option \<Rightarrow> 'a world_scheme \<Rightarrow> 'a world_scheme" where
  "stop_tracks_of vid w =
     (case vid of
        Some v \<Rightarrow> (case srcObject v of Some m \<Rightarrow> emit (StopTracks m) w | None \<Rightarrow> w)
      | None \<Rightarrow> w)"

definition stopCamera1 :: "video_el option \<Rightarrow> world \<Rightarrow> world" where
  "stopCamera1 vid w = (stop_tracks_of vid w)\<lparr>capturing := False\<rparr>"

text \<open>
  \<open>captureAndAnalyze\<close>, lines 51 to 108. The call of \<^verbatim>\<open>getContext\<close> in line 54 stands before
  the \<^verbatim>\<open>try\<close>: without a canvas element the TypeError leaves the function and no setter has
  run. The outer \<^verbatim>\<open>catch\<close> is that of lines 104 to 107, the inner one that of lines 96 to 101.
\<close>

definition caught_outer1 :: "js_error \<Rightarrow> world \<Rightarrow> world" where
  "caught_outer1 e w =
     w\<lparr>error := js_or (JStr (message e)) (JStr ''Failed to capture photo''),
       analyzing := False\<rparr>"

definition caught_inner1 :: "js_error \<Rightarrow> world \<Rightarrow> world" where
  "caught_inner1 e w =
     w\<lparr>error := js_or (server_error e) (JStr ''Failed to analyze. Please try again.''),
       analyzing := False\<rparr>"

definition begin1 :: "capture_env \<Rightarrow> world \<Rightarrow> js_error + world progress" where
  "begin1 env w =
     (case canvas env of
        None \<Rightarrow> Inl (null_deref env)
      | Some c \<Rightarrow>
          (let w1 = w\<lparr>analyzing := True, error := JNull, result := JNull\<rparr> in
           case video env of
             None \<Rightarrow> Inr (Finished (caught_outer1 (null_deref env) w1))
           | Some v \<Rightarrow>
               if \<not> context2d c then Inr (Finished (caught_outer1 (null_deref env) w1))
               else Inr (Encoding w1)))"

definition encoded1 :: "capture_env \<Rightarrow> world \<Rightarrow> world progress" where
  "encoded1 env w =
     (case encoded env of
        Some b \<Rightarrow>
          if bsize b = 0
          then Finished (w\<lparr>error := JStr ''Failed to capture photo'', analyzing := False\<rparr>)
          else Uploading (emit (post_request env b) w)
      | None \<Rightarrow> Finished (w\<lparr>error := JStr ''Failed to capture photo'', analyzing := False\<rparr>))"

definition replied1 :: "capture_env \<Rightarrow> world \<Rightarrow> world" where
  "replied1 env w =
     (case reply env of
        Resolved d \<Rightarrow>
          if nullish d then caught_inner1 (null_deref env) w
          else if truthy (get_prop d ''success'')
          then (stopCamera1 (video_on_stop env) (w\<lparr>result := d\<rparr>))\<lparr>analyzing := False\<rparr>
          else w\<lparr>error := JStr ''Failed to analyze image'', analyzing := False\<rparr>
      | Rejected e \<Rightarrow> caught_inner1 e w)"

fun resume1 :: "capture_env \<Rightarrow> world progress \<Rightarrow> world progress" where
  "resume1 env (Finished w) = Finished w"
| "resume1 env (Encoding w) = encoded1 env w"
| "resume1 env (Uploading w) = Finished (replied1 env w)"

definition captureAndAnalyze1 :: "capture_env \<Rightarrow> world \<Rightarrow> js_error + world" where
  "captureAndAnalyze1 env w =
     (case begin1 env w of
        Inl e \<Rightarrow> Inl e
      | Inr p \<Rightarrow> Inr (world_of (resume1 env (resume1 env p))))"

section \<open>The event loop\<close>

text \<open>
  Between two events the component is rendered, and the user can only press a button that
  the view offers. A promise that a handler awaits (the camera request, the encoded blob,
  the reply) is parked and resumed when it settles; any number of presses may come in
  between, and parked promises settle in any order. A step is refused when the button is not
  offered or nothing is parked under the index, and it crashes when the cleanup of an effect
  raises, after which React unmounts the component.
\<close>

datatype 's step = Refused | Crashed | Next 's

datatype stage = AwaitBlob | AwaitReply

type_synonym pending = "capture_env \<times> stage"

fun suspended :: "stage \<Rightarrow> 'w \<Rightarrow> 'w progress" where
  "suspended AwaitBlob w = Encoding w"
| "suspended AwaitReply w = Uploading w"

text \<open>\<open>tag\<close> makes the entry under which a suspended submission is parked.\<close>

fun park :: "(stage \<Rightarrow> 'p) \<Rightarrow> 'w progress \<Rightarrow> 'p list \<Rightarrow> 'w \<times> 'p list" where
  "park tag (Finished w) ps = (w, ps)"
| "park tag (Encoding w) ps = (w, ps @ [tag AwaitBlob])"
| "park tag (Uploading w) ps = (w, ps @ [tag AwaitReply])"

text \<open>
  The video element of an event is the one mounted at that moment, as it is then. The first
  component looks it up in its effect (\<open>PressStart\<close>, \<open>PressNewScan\<close>) and in \<open>stopCamera\<close>
  (\<open>PressCancel\<close>), and the cleanup of its effect reads it when a settled camera request
  ends capture mode (\<open>CameraSettled\<close>); the second reads \<^verbatim>\<open>videoRef.current\<close> when the camera
  request settles (\<open>CameraSettled\<close>). \<open>CameraSettled\<close> and \<open>Settled\<close> name the parked promise
  by its index.
\<close>

datatype event =
    PressStart "video_el option"
  | CameraSettled nat camera_outcome "video_el option"
  | PressCapture capture_env
  | PressCancel "video_el option"
  | PressTryAgain
  | PressDownload nat
  | PressNewScan "video_el option"
  | Settled nat

fun run :: "(event \<Rightarrow> 's \<Rightarrow> 's step) \<Rightarrow> event list \<Rightarrow> 's \<Rightarrow> 's step" where
  "run f [] s = Next s"
| "run f (e # es) s =
     (case f e s of Next s' \<Rightarrow> run f es s' | Refused \<Rightarrow> Refused | Crashed \<Rightarrow> Crashed)"

subsection \<open>Second component\<close>

text \<open>
  \<open>startCamera\<close> (lines 339 to 354) in its two stretches: up to the \<^verbatim>\<open>await\<close> of line 342, and
  from the settlement of \<^verbatim>\<open>getUserMedia\<close> to the end.
\<close>

definition startCamera2_begin :: "world2 \<Rightarrow> world2" where
  "startCamera2_begin w = w\<lparr>error := JNull\<rparr>"

definition startCamera2_settle :: "camera_outcome \<Rightarrow> bool \<Rightarrow> world2 \<Rightarrow> world2" where
  "startCamera2_settle out ref w =
     (case out of
        Granted m \<Rightarrow>
          (let w2 = w\<lparr>stream := Some m\<rparr>;
               w3 = (if ref then emit (SetSrcObject m) w2 else w2)
           in w3\<lparr>capturing := True\<rparr>)
      | Denied e \<Rightarrow>
          w\<lparr>error :=
              JStr ''Failed to access camera. Please ensure camera permissions are granted.''\<rparr>)"

text \<open>
  \<open>stopCamera\<close>, called at the end of a submission, reads \<open>stream\<close> through the closure of
  the render in which Take Photo was pressed. A parked submission therefore carries that
  value \<open>c\<close>; it is resumed on \<open>c\<close>, and the cell keeps its present value unless the handler
  has set it.
\<close>

definition resume_closed2 ::
  "media_stream option \<Rightarrow> capture_env \<Rightarrow> stage \<Rightarrow> world2 \<Rightarrow> world2 progress" where
  "resume_closed2 c env st w =
     map_progress (\<lambda>w'. w'\<lparr>stream := (if stream w' = c then stream w else stream w')\<rparr>)
       (resume2 env (suspended st (w\<lparr>stream := c\<rparr>)))"

text \<open>
  The state of the loop: the controller, the parked submissions and the number of parked
  camera requests. The handler of New Scan is \<^verbatim>\<open>reset(); startCamera();\<close> (line 611).
\<close>

type_synonym loop2 = "world2 \<times> (capture_env \<times> stage \<times> media_stream option) list \<times> nat"

fun fire2 :: "event \<Rightarrow> loop2 \<Rightarrow> loop2 step" where
  "fire2 (PressStart vid) (w, ps, n) =
     (if offered StartCameraBtn w then Next (startCamera2_begin w, ps, Suc n) else Refused)"
| "fire2 (CameraSettled i out vid) (w, ps, n) =
     (if i < n
      then Next (commit2 w (startCamera2_settle out (vid \<noteq> None) w), ps, n - 1)
      else Refused)"
| "fire2 (PressCapture env) (w, ps, n) =
     (if offered CaptureBtn w
      then (case park (\<lambda>st. (env, st, stream w)) (begin2 env w) ps of
              (w', ps') \<Rightarrow> Next (w', ps', n))
      else Refused)"
| "fire2 (PressCancel vid) (w, ps, n) =
     (if offered CancelBtn w then Next (commit2 w (stopCamera2 w), ps, n) else Refused)"
| "fire2 PressTryAgain (w, ps, n) =
     (if offered TryAgainBtn w then Next (reset w, ps, n) else Refused)"
| "fire2 (PressDownload now) (w, ps, n) =
     (if offered DownloadBtn w then Next (downloadReceipt now w, ps, n) else Refused)"
| "fire2 (PressNewScan vid) (w, ps, n) =
     (if offered NewScanBtn w then Next (startCamera2_begin (reset w), ps, Suc n) else Refused)"
| "fire2 (Settled i) (w, ps, n) =
     (if i < length ps
      then (case ps ! i of
              (env, st, c) \<Rightarrow>
                (case park (\<lambda>st'. (env, st', c)) (resume_closed2 c env st w)
                        (take i ps @ drop (Suc i) ps) of
                   (w', ps') \<Rightarrow> Next (commit2 w w', ps', n)))
      else Refused)"

inductive reachable2 :: "loop2 \<Rightarrow> bool" where
  start2: "reachable2 (init2, [], 0)"
| step2: "reachable2 s \<Longrightarrow> fire2 e s = Next s' \<Longrightarrow> reachable2 s'"

subsection \<open>First component\<close>

text \<open>
  The effect of lines 13 to 36 depends on \<open>capturing\<close>: it runs after a render in which
  \<open>capturing\<close> has turned true and parks the camera request together with the video element
  it found, which the \<^verbatim>\<open>then\<close> callback of that request writes to. After a render in which
  \<open>capturing\<close> has turned false the cleanup runs on the element of the capture session that
  ends, the one mounted until then. The state of the loop holds the controller, the parked
  submissions and the parked camera requests.
\<close>

definition commit1 :: "video_el option \<Rightarrow> world \<Rightarrow> world \<Rightarrow> world option" where
  "commit1 vid old cur =
     (if capturing old \<and> \<not> capturing cur then cleanup1 vid cur else Some cur)"

type_synonym loop1 = "world \<times> pending list \<times> video_el option list"

definition rendered1 ::
  "video_el option \<Rightarrow> world \<Rightarrow> world \<Rightarrow> pending list \<Rightarrow> video_el option list \<Rightarrow> loop1 step" where
  "rendered1 vid old cur ps cams =
     (case commit1 vid old cur of None \<Rightarrow> Crashed | Some w' \<Rightarrow> Next (w', ps, cams))"

fun fire1 :: "event \<Rightarrow> loop1 \<Rightarrow> loop1 step" where
  "fire1 (PressStart vid) (w, ps, cams) =
     (if offered StartCameraBtn w then Next (startCamera1 w, ps, cams @ [vid]) else Refused)"
| "fire1 (CameraSettled i out vid) (w, ps, cams) =
     (if i < length cams
      then rendered1 vid w (camera_effect1 (cams ! i) out w) ps
             (take i cams @ drop (Suc i) cams)
      else Refused)"
| "fire1 (PressCapture env) (w, ps, cams) =
     (if offered CaptureBtn w
      then (case begin1 env w of
              Inl e \<Rightarrow> Next (w, ps, cams)
            | Inr p \<Rightarrow> (case park (Pair env) p ps of (w', ps') \<Rightarrow> Next (w', ps', cams)))
      else Refused)"
| "fire1 (PressCancel vid) (w, ps, cams) =
     (if offered CancelBtn w then rendered1 vid w (stopCamera1 vid w) ps cams else Refused)"
| "fire1 PressTryAgain (w, ps, cams) =
     (if offered TryAgainBtn w then Next (reset w, ps, cams) else Refused)"
| "fire1 (PressDownload now) (w, ps, cams) =
     (if offered DownloadBtn w then Next (downloadReceipt now w, ps, cams) else Refused)"
| "fire1 (PressNewScan vid) (w, ps, cams) =
     (if offered NewScanBtn w
      then Next (startCamera1 (reset w), ps, if capturing w then cams else cams @ [vid])
      else Refused)"
| "fire1 (Settled i) (w, ps, cams) =
     (if i < length ps
      then (case ps ! i of
              (env, st) \<Rightarrow>
                (case park (Pair env) (resume1 env (suspended st w))
                        (take i ps @ drop (Suc i) ps) of
                   (w', ps') \<Rightarrow> rendered1 (video_on_stop env) w w' ps' cams))
      else Refused)"

inductive reachable1 :: "loop1 \<Rightarrow> bool" where
  start1: "reachable1 (init1, [], [])"
| step1: "reachable1 s \<Longrightarrow> fire1 e s = Next s' \<Longrightarrow> reachable1 s'"

section \<open>Sample inputs and the properties of the event loop\<close>

text \<open>
  Concrete inputs on which the statements below are evaluated: a video element with a buffered
  frame, a well-formed reply of the backend, and environments that differ from the successful
  one in a single component.
\<close>

definition sample_video :: video_el where
  "sample_video = \<lparr>readyState = 4, videoWidth = 1280, videoHeight = 720, srcObject = Some 7\<rparr>"

definition sample_payload :: jsval where
  "sample_payload =
     JObj [(''success'', JBool True),
           (''items'', JArr [JObj [(''name'', JStr ''rice''), (''confidence'', JNum 93),
                                   (''price'', JNum 60), (''calories'', JNum 200),
                                   (''protein'', JNum 4), (''carbs'', JNum 45), (''fat'', JNum 1)]]),
           (''totals'', JObj [(''total_price'', JNum 60), (''total_calories'', JNum 200),
                              (''total_protein'', JNum 4), (''total_carbs'', JNum 45),
                              (''total_fat'', JNum 1)]),
           (''timestamp'', JStr ''2024-01-01 12:00''),
           (''receipt_html'', JStr ''<html>receipt</html>'')]"

definition sample_env :: capture_env where
  "sample_env =
     \<lparr>video = Some sample_video, canvas = Some \<lparr>context2d = True\<rparr>,
      null_deref = Error ''Cannot read properties of null'',
      encoded = Some \<lparr>bsize = 2048\<rparr>, reply = Resolved sample_payload,
      video_on_stop = Some sample_video, api_env = None\<rparr>"

definition capture_world1 :: world where
  "capture_world1 = startCamera1 init1"

definition capture_world2 :: world2 where
  "capture_world2 = startCamera2 (Granted 7) False init2"

definition unbuffered_env :: capture_env where
  "unbuffered_env =
     \<lparr>video = Some \<lparr>readyState = 1, videoWidth = 1280, videoHeight = 720, srcObject = Some 7\<rparr>,
      canvas = Some \<lparr>context2d = True\<rparr>,
      null_deref = Error ''Cannot read properties of null'',
      encoded = Some \<lparr>bsize = 2048\<rparr>, reply = Rejected (Error ''Network Error''),
      video_on_stop = None, api_env = None\<rparr>"

definition timeout_env :: capture_env where
  "timeout_env = sample_env\<lparr>reply := Rejected (Error ''timeout of 30000ms exceeded'')\<rparr>"

definition denied :: camera_outcome where
  "denied = Denied (Error ''Permission denied'')"

definition empty_blob_env :: capture_env where
  "empty_blob_env = sample_env\<lparr>encoded := Some \<lparr>bsize = 0\<rparr>\<rparr>"

definition refused_env :: capture_env where
  "refused_env =
     sample_env\<lparr>reply := Resolved (JObj [(''success'', JBool False),
                                          (''error'', JStr ''No food detected'')])\<rparr>"

definition http_error_env :: capture_env where
  "http_error_env =
     sample_env\<lparr>reply := Rejected \<lparr>message = [],
                    response = Some (JObj [(''error'', JStr ''Model unavailable'')])\<rparr>\<rparr>"

text \<open>
  Two properties of a state of the loop: \<open>result\<close> is null or truthy and \<open>analyzing\<close> is set
  exactly while one submission is parked; capture mode and a result exclude each other.
\<close>

definition settled :: "'a world_scheme \<times> 'p list \<times> 'c \<Rightarrow> bool" where
  "settled s \<longleftrightarrow>
     (result (fst s) = JNull \<or> truthy (result (fst s))) \<and>
     (analyzing (fst s) \<longleftrightarrow> fst (snd s) \<noteq> []) \<and> length (fst (snd s)) \<le> 1"

definition apart :: "'a world_scheme \<Rightarrow> bool" where
  "apart w \<longleftrightarrow> \<not> (capturing w \<and> result w \<noteq> JNull)"

section \<open>Auxiliary facts\<close>

subsection \<open>How far a submission gets\<close>

lemma begin2_Encoding:
  "begin2 env w = Encoding w1 \<longleftrightarrow>
     (\<exists>v c. video env = Some v \<and> canvas env = Some c \<and> readyState v = HAVE_ENOUGH_DATA \<and>
        videoWidth v \<noteq> 0 \<and> videoHeight v \<noteq> 0 \<and> context2d c) \<and>
     w1 = w\<lparr>analyzing := True, error := JNull, result := JNull\<rparr>"
  by (auto simp add: begin2_def Let_def split: option.splits prod.splits)

lemma reaches_upload2:
  "resume2 env (begin2 env w) = Uploading u \<longleftrightarrow>
     (\<exists>v c b. video env = Some v \<and> canvas env = Some c \<and> readyState v = HAVE_ENOUGH_DATA \<and>
        videoWidth v \<noteq> 0 \<and> videoHeight v \<noteq> 0 \<and> context2d c \<and>
        encoded env = Some b \<and> 0 < bsize b \<and>
        u = emit (post_request env b) (w\<lparr>analyzing := True, error := JNull, result := JNull\<rparr>))"
  by (auto simp add: begin2_def encoded2_def Let_def split: option.splits prod.splits)

lemma begin1_Encoding:
  "begin1 env w = Inr (Encoding w1) \<longleftrightarrow>
     (\<exists>v c. video env = Some v \<and> canvas env = Some c \<and> context2d c) \<and>
     w1 = w\<lparr>analyzing := True, error := JNull, result := JNull\<rparr>"
  by (auto simp add: begin1_def Let_def split: option.splits)

lemma reaches_upload1:
  "begin1 env w = Inr p \<and> resume1 env p = Uploading u \<longleftrightarrow>
     (\<exists>v c b. video env = Some v \<and> canvas env = Some c \<and> context2d c \<and>
        encoded env = Some b \<and> 0 < bsize b \<and> p = Encoding (w\<lparr>analyzing := True, error := JNull, result := JNull\<rparr>) \<and>
        u = emit (post_request env b) (w\<lparr>analyzing := True, error := JNull, result := JNull\<rparr>))"
  by (auto simp add: begin1_def encoded1_def Let_def split: option.splits prod.splits if_splits)

lemma capture2_upload:
  "resume2 env (begin2 env w) = Uploading u \<Longrightarrow> captureAndAnalyze2 env w = replied2 env u"
  by (simp add: captureAndAnalyze2_def)

lemma capture1_upload:
  "begin1 env w = Inr p \<Longrightarrow> resume1 env p = Uploading u \<Longrightarrow>
     captureAndAnalyze1 env w = Inr (replied1 env u)"
  by (simp add: captureAndAnalyze1_def)

lemma upload2_world:
  "resume2 env (begin2 env w) = Uploading u \<Longrightarrow>
     capturing u = capturing w \<and> analyzing u \<and> result u = JNull \<and> error u = JNull \<and>
     stream u = stream w \<and> (\<exists>b. 0 < bsize b \<and> encoded env = Some b \<and> trace u = trace w @ [post_request env b])"
  by (auto simp add: reaches_upload2 emit_def)

lemma upload1_world:
  "begin1 env w = Inr p \<Longrightarrow> resume1 env p = Uploading u \<Longrightarrow>
     capturing u = capturing w \<and> analyzing u \<and> result u = JNull \<and> error u = JNull \<and>
     (\<exists>b. 0 < bsize b \<and> encoded env = Some b \<and> trace u = trace w @ [post_request env b])"
  using reaches_upload1 [of env w p u] by (auto simp add: emit_def)

subsection \<open>A reply that is not a success\<close>

lemma replied2_failure:
  assumes "(\<exists>d. reply env = Resolved d \<and> \<not> truthy (get_prop d ''success'')) \<or>
           (\<exists>e. reply env = Rejected e)"
  shows "truthy (error (replied2 env u)) \<and> result (replied2 env u) = result u \<and>
         capturing (replied2 env u) = capturing u \<and> \<not> analyzing (replied2 env u) \<and>
         trace (replied2 env u) = trace u \<and> stream (replied2 env u) = stream u"
  using assms
  by (auto simp add: replied2_def caught2_def js_or_def split: if_splits)

lemma replied1_failure:
  assumes "(\<exists>d. reply env = Resolved d \<and> \<not> truthy (get_prop d ''success'')) \<or>
           (\<exists>e. reply env = Rejected e)"
  shows "truthy (error (replied1 env u)) \<and> result (replied1 env u) = result u \<and>
         capturing (replied1 env u) = capturing u \<and> \<not> analyzing (replied1 env u) \<and>
         trace (replied1 env u) = trace u"
  using assms
  by (auto simp add: replied1_def caught_inner1_def js_or_def split: if_splits)

lemma replied2_text:
  assumes "(\<exists>d. reply env = Resolved d \<and> \<not> truthy (get_prop d ''success'')) \<or>
           (\<exists>e. reply env = Rejected e \<and> response e = None)"
    and "response (null_deref env) = None"
  shows "\<exists>m. error (replied2 env u) = JStr m \<and> m \<noteq> []"
  using assms
  by (auto simp add: replied2_def caught2_def js_or_def server_error_def)

lemma replied1_text:
  assumes "(\<exists>d. reply env = Resolved d \<and> \<not> truthy (get_prop d ''success'')) \<or>
           (\<exists>e. reply env = Rejected e \<and> response e = None)"
    and "response (null_deref env) = None"
  shows "\<exists>m. error (replied1 env u) = JStr m \<and> m \<noteq> []"
  using assms
  by (auto simp add: replied1_def caught_inner1_def js_or_def server_error_def)

text \<open>
  The \<^verbatim>\<open>catch\<close> of the second component reads the message of the thrown error before the
  body of the response, so a rejection with a message of its own shows that message.
\<close>

lemma caught2_own_message_first:
  "message e \<noteq> [] \<Longrightarrow> error (caught2 e w) = JStr (message e)"
  by (simp add: caught2_def js_or_def)

subsection \<open>What each handler leaves alone\<close>

lemma commit2_simps:
  "capturing (commit2 a b) = capturing b" "analyzing (commit2 a b) = analyzing b"
  "result (commit2 a b) = result b" "error (commit2 a b) = error b"
  by (simp_all add: commit2_def emit_def split: option.splits)

lemma startCamera2_simps:
  "analyzing (startCamera2 out r w) = analyzing w" "result (startCamera2 out r w) = result w"
  by (simp_all add: startCamera2_def emit_def Let_def split: camera_outcome.splits)

lemma stopCamera2_simps:
  "analyzing (stopCamera2 w) = analyzing w" "result (stopCamera2 w) = result w"
  "capturing (stopCamera2 w) = False"
  by (simp_all add: stopCamera2_def emit_def Let_def split: option.splits)

lemma stopCamera1_simps:
  "analyzing (stopCamera1 v w) = analyzing w" "result (stopCamera1 v w) = result w"
  "capturing (stopCamera1 v w) = False"
  by (simp_all add: stopCamera1_def stop_tracks_of_def emit_def split: option.splits)

lemma reset_simps:
  "analyzing (reset w) = analyzing w" "result (reset w) = JNull"
  "capturing (reset w) = capturing w"
  by (simp_all add: reset_def)

lemma downloadReceipt_simps:
  "analyzing (downloadReceipt n w) = analyzing w" "result (downloadReceipt n w) = result w"
  "capturing (downloadReceipt n w) = capturing w"
  by (simp_all add: downloadReceipt_def emit_def)

lemma begin2_shape:
  "begin2 env w = Finished w' \<Longrightarrow>
     \<not> analyzing w \<Longrightarrow> \<not> (capturing w \<and> truthy (result w)) \<Longrightarrow>
     result w = JNull \<or> truthy (result w) \<Longrightarrow>
     \<not> analyzing w' \<and> \<not> (capturing w' \<and> truthy (result w')) \<and>
     (result w' = JNull \<or> truthy (result w'))"
  "begin2 env w = Encoding w' \<Longrightarrow> analyzing w' \<and> result w' = JNull"
  "begin2 env w \<noteq> Uploading w'"
  by (auto simp add: begin2_def caught2_def Let_def split: option.splits prod.splits if_splits)

lemma encoded2_shape:
  "encoded2 env w = Finished w' \<Longrightarrow>
     \<not> analyzing w' \<and> capturing w' = capturing w \<and> result w' = result w"
  "encoded2 env w = Uploading w' \<Longrightarrow>
     analyzing w' = analyzing w \<and> capturing w' = capturing w \<and> result w' = result w"
  "encoded2 env w \<noteq> Encoding w'"
  by (auto simp add: encoded2_def caught2_def emit_def split: option.splits if_splits)

lemma truthy_prop: "truthy (get_prop d k) \<Longrightarrow> truthy d"
  by (cases d) simp_all

lemma replied2_shape:
  "\<not> analyzing (replied2 env w)"
  "\<not> (capturing w \<and> truthy (result w)) \<Longrightarrow>
     \<not> (capturing (replied2 env w) \<and> truthy (result (replied2 env w)))"
  "result w = JNull \<or> truthy (result w) \<Longrightarrow>
     result (replied2 env w) = JNull \<or> truthy (result (replied2 env w))"
  by (auto simp add: replied2_def caught2_def stopCamera2_simps
      split: axios_outcome.splits if_splits dest: truthy_prop)

lemma begin1_shape:
  "begin1 env w = Inr (Finished w') \<Longrightarrow> \<not> analyzing w' \<and> result w' = JNull"
  "begin1 env w = Inr (Encoding w') \<Longrightarrow> analyzing w' \<and> result w' = JNull"
  "begin1 env w \<noteq> Inr (Uploading w')"
  by (auto simp add: begin1_def caught_outer1_def Let_def split: option.splits if_splits)

lemma encoded1_shape:
  "encoded1 env w = Finished w' \<Longrightarrow>
     \<not> analyzing w' \<and> capturing w' = capturing w \<and> result w' = result w"
  "encoded1 env w = Uploading w' \<Longrightarrow>
     analyzing w' = analyzing w \<and> capturing w' = capturing w \<and> result w' = result w"
  "encoded1 env w \<noteq> Encoding w'"
  by (auto simp add: encoded1_def emit_def split: option.splits if_splits)

lemma replied1_shape:
  "\<not> analyzing (replied1 env w)"
  "\<not> (capturing w \<and> truthy (result w)) \<Longrightarrow>
     \<not> (capturing (replied1 env w) \<and> truthy (result (replied1 env w)))"
  "result w = JNull \<or> truthy (result w) \<Longrightarrow>
     result (replied1 env w) = JNull \<or> truthy (result (replied1 env w))"
  by (auto simp add: replied1_def caught_inner1_def stopCamera1_simps
      split: axios_outcome.splits if_splits dest: truthy_prop)

lemma capture2_analyzing: "analyzing (captureAndAnalyze2 env w) \<Longrightarrow> analyzing w"
  by (cases "reply env")
    (auto simp add: captureAndAnalyze2_def begin2_def encoded2_def replied2_def caught2_def
      stopCamera2_simps Let_def split: option.splits if_splits prod.splits)

lemma capture1_analyzing: "captureAndAnalyze1 env w = Inr w' \<Longrightarrow> \<not> analyzing w'"
  by (cases "reply env")
    (auto simp add: captureAndAnalyze1_def begin1_def encoded1_def replied1_def caught_inner1_def
      caught_outer1_def stopCamera1_simps Let_def split: option.splits if_splits)

lemma startCamera2_begin_simps:
  "analyzing (startCamera2_begin w) = analyzing w" "result (startCamera2_begin w) = result w"
  "capturing (startCamera2_begin w) = capturing w"
  by (simp_all add: startCamera2_begin_def)

lemma startCamera2_settle_simps:
  "analyzing (startCamera2_settle out r w) = analyzing w"
  "result (startCamera2_settle out r w) = result w"
  by (simp_all add: startCamera2_settle_def emit_def Let_def split: camera_outcome.splits)

lemma startCamera1_simps:
  "analyzing (startCamera1 w) = analyzing w" "result (startCamera1 w) = result w"
  by (simp_all add: startCamera1_def)

lemma camera_effect1_simps:
  "analyzing (camera_effect1 v out w) = analyzing w" "result (camera_effect1 v out w) = result w"
  "capturing (camera_effect1 v out w) \<Longrightarrow> capturing w"
  by (auto simp add: camera_effect1_def camera_failed1_def emit_def
      split: camera_outcome.splits option.splits)

lemma commit1_Some:
  "commit1 v old cur = Some w' \<Longrightarrow>
     capturing w' = capturing cur \<and> analyzing w' = analyzing cur \<and> result w' = result cur \<and>
     error w' = error cur"
  by (auto simp add: commit1_def cleanup1_def emit_def split: if_splits option.splits)

lemma rendered1_Next:
  "rendered1 v old cur ps cams = Next (w', ps', cams') \<Longrightarrow>
     capturing w' = capturing cur \<and> analyzing w' = analyzing cur \<and> result w' = result cur \<and>
     ps' = ps \<and> cams' = cams"
  using commit1_Some [of v old cur w']
  by (auto simp add: rendered1_def split: option.splits)

lemma resume_closed2_blob:
  assumes "resume_closed2 c env AwaitBlob w = p"
  shows "case p of
           Finished x \<Rightarrow> \<not> analyzing x \<and> capturing x = capturing w \<and> result x = result w
         | Uploading x \<Rightarrow>
             analyzing x = analyzing w \<and> capturing x = capturing w \<and> result x = result w
         | Encoding x \<Rightarrow> False"
proof (cases "encoded2 env (w\<lparr>stream := c\<rparr>)")
  case (Finished y)
  from encoded2_shape(1) [OF this] assms Finished show ?thesis
    by (auto simp add: resume_closed2_def)
next
  case (Encoding y)
  then show ?thesis using encoded2_shape(3) [of env "w\<lparr>stream := c\<rparr>" y] by simp
next
  case (Uploading y)
  from encoded2_shape(2) [OF this] assms Uploading show ?thesis
    by (auto simp add: resume_closed2_def)
qed

lemma resume_closed2_reply:
  assumes "resume_closed2 c env AwaitReply w = p"
  shows "case p of
           Finished x \<Rightarrow>
             \<not> analyzing x \<and>
             (result w = JNull \<or> truthy (result w) \<longrightarrow> result x = JNull \<or> truthy (result x))
         | Uploading x \<Rightarrow> False
         | Encoding x \<Rightarrow> False"
  using assms replied2_shape(1) [of env "w\<lparr>stream := c\<rparr>"]
    replied2_shape(3) [of "w\<lparr>stream := c\<rparr>" env]
  by (auto simp add: resume_closed2_def)

text \<open>The two stretches of \<open>startCamera\<close> of the second component make up the whole.\<close>

lemma startCamera2_stretches:
  "startCamera2 out ref w = startCamera2_settle out ref (startCamera2_begin w)"
  by (simp add: startCamera2_def startCamera2_settle_def startCamera2_begin_def Let_def
      split: camera_outcome.splits)

subsection \<open>What the event loop keeps\<close>

text \<open>
  In both components every event keeps \<open>result\<close> null or truthy and \<open>analyzing\<close> set exactly
  while one submission is parked. The first component, which sets \<open>capturing\<close> in the press
  itself, also keeps capture mode and a result apart; the second does not.
\<close>

lemma fire2_keeps:
  assumes q: "settled (w, ps, n)" and f: "fire2 e (w, ps, n) = Next (w', ps', n')"
  shows "settled (w', ps', n')"
proof (cases e)
  case (PressStart vid)
  with f have "w' = startCamera2_begin w" "ps' = ps"
    by (simp_all split: if_splits)
  then show ?thesis using q
    by (simp add: settled_def startCamera2_begin_simps)
next
  case (CameraSettled i out vid)
  with f have "w' = commit2 w (startCamera2_settle out (vid \<noteq> None) w)" "ps' = ps"
    by (simp_all split: if_splits)
  then show ?thesis using q
    by (simp add: settled_def commit2_simps startCamera2_settle_simps)
next
  case (PressCapture env)
  with f have o: "\<not> analyzing w" "\<not> truthy (result w)"
    and p: "(case park (\<lambda>st. (env, st, stream w)) (begin2 env w) ps of
              (w', ps') \<Rightarrow> Next (w', ps', n)) = Next (w', ps', n')"
    by (simp_all split: if_splits)
  from q o have e: "ps = []" by (simp add: settled_def)
  from q have r: "result w = JNull \<or> truthy (result w)" by (simp add: settled_def)
  show ?thesis
  proof (cases "begin2 env w")
    case (Finished x)
    then show ?thesis using p e o r begin2_shape(1) [of env w x]
      by (auto simp add: settled_def)
  next
    case (Encoding x)
    then show ?thesis using p e begin2_shape(2) [of env w x]
      by (auto simp add: settled_def)
  next
    case (Uploading x)
    then show ?thesis using begin2_shape(3) [of env w x] by simp
  qed
next
  case (PressCancel vid)
  with f have "w' = commit2 w (stopCamera2 w)" "ps' = ps"
    by (simp_all split: if_splits)
  then show ?thesis using q
    by (simp add: settled_def commit2_simps stopCamera2_simps)
next
  case PressTryAgain
  with f have "w' = reset w" "ps' = ps"
    by (simp_all split: if_splits)
  then show ?thesis using q
    by (simp add: settled_def reset_simps)
next
  case (PressDownload now)
  with f have "w' = downloadReceipt now w" "ps' = ps"
    by (simp_all split: if_splits)
  then show ?thesis using q
    by (simp add: settled_def downloadReceipt_simps)
next
  case (PressNewScan vid)
  with f have "w' = startCamera2_begin (reset w)" "ps' = ps"
    by (simp_all split: if_splits)
  then show ?thesis using q
    by (simp add: settled_def startCamera2_begin_simps reset_simps)
next
  case (Settled i)
  with f have i: "i < length ps" by (simp split: if_splits)
  with q obtain env st c where ps: "ps = [(env, st, c)]" and i0: "i = 0"
    by (cases ps) (auto simp add: settled_def)
  from q ps have a: "analyzing w" and r: "result w = JNull \<or> truthy (result w)"
    by (simp_all add: settled_def)
  show ?thesis
  proof (cases st)
    case AwaitBlob
    show ?thesis
    proof (cases "resume_closed2 c env AwaitBlob w")
      case (Finished x)
      then show ?thesis using f Settled ps i0 AwaitBlob r resume_closed2_blob [OF Finished]
        by (auto simp add: settled_def commit2_simps)
    next
      case (Encoding x)
      then show ?thesis using resume_closed2_blob [OF Encoding] by simp
    next
      case (Uploading x)
      then show ?thesis using f Settled ps i0 AwaitBlob r a resume_closed2_blob [OF Uploading]
        by (auto simp add: settled_def commit2_simps)
    qed
  next
    case AwaitReply
    show ?thesis
    proof (cases "resume_closed2 c env AwaitReply w")
      case (Finished x)
      then show ?thesis using f Settled ps i0 AwaitReply r resume_closed2_reply [OF Finished]
        by (auto simp add: settled_def commit2_simps)
    next
      case (Encoding x)
      then show ?thesis using resume_closed2_reply [OF Encoding] by simp
    next
      case (Uploading x)
      then show ?thesis using resume_closed2_reply [OF Uploading] by simp
    qed
  qed
qed

lemma reachable2_settled: "reachable2 s \<Longrightarrow> settled s"
proof (induction rule: reachable2.induct)
  case start2
  then show ?case by (simp add: settled_def init2_def)
next
  case (step2 s e s')
  obtain w ps n where s: "s = (w, ps, n)" by (cases s)
  obtain w' ps' n' where s': "s' = (w', ps', n')" by (cases s')
  from step2 s s' show ?case using fire2_keeps [of w ps n e w' ps' n'] by simp
qed

lemma fire1_keeps:
  assumes q: "settled (w, ps, cams)" and x: "\<not> (capturing w \<and> truthy (result w))"
    and f: "fire1 e (w, ps, cams) = Next (w', ps', cams')"
  shows "settled (w', ps', cams') \<and> \<not> (capturing w' \<and> truthy (result w'))"
proof (cases e)
  case (PressStart vid)
  with f have "w' = startCamera1 w" "ps' = ps" "\<not> truthy (result w)"
    by (simp_all split: if_splits)
  then show ?thesis using q
    by (simp add: settled_def startCamera1_simps)
next
  case (CameraSettled i out vid)
  with f have "rendered1 vid w (camera_effect1 (cams ! i) out w) ps
             (take i cams @ drop (Suc i) cams) = Next (w', ps', cams')"
    by (simp split: if_splits)
  from rendered1_Next [OF this] show ?thesis
    using q x camera_effect1_simps(3) [of "cams ! i" out w]
    by (auto simp add: settled_def camera_effect1_simps(1,2))
next
  case (PressCapture env)
  with f have o: "\<not> analyzing w" "\<not> truthy (result w)"
    and p: "(case begin1 env w of
              Inl e \<Rightarrow> Next (w, ps, cams)
            | Inr p \<Rightarrow> (case park (Pair env) p ps of (w', ps') \<Rightarrow> Next (w', ps', cams)))
            = Next (w', ps', cams')"
    by (simp_all split: if_splits)
  from q o have e: "ps = []" by (simp add: settled_def)
  show ?thesis
  proof (cases "begin1 env w")
    case (Inl a)
    then show ?thesis using p q x by simp
  next
    case (Inr pr)
    show ?thesis
    proof (cases pr)
      case (Finished y)
      then show ?thesis using Inr p e begin1_shape(1) [of env w y]
        by (auto simp add: settled_def)
    next
      case (Encoding y)
      then show ?thesis using Inr p e begin1_shape(2) [of env w y]
        by (auto simp add: settled_def)
    next
      case (Uploading y)
      then show ?thesis using Inr begin1_shape(3) [of env w y] by simp
    qed
  qed
next
  case (PressCancel vid)
  with f have "rendered1 vid w (stopCamera1 vid w) ps cams = Next (w', ps', cams')"
    by (simp split: if_splits)
  from rendered1_Next [OF this] show ?thesis using q
    by (simp add: settled_def stopCamera1_simps)
next
  case PressTryAgain
  with f have "w' = reset w" "ps' = ps"
    by (simp_all split: if_splits)
  then show ?thesis using q
    by (simp add: settled_def reset_simps)
next
  case (PressDownload now)
  with f have "w' = downloadReceipt now w" "ps' = ps"
    by (simp_all split: if_splits)
  then show ?thesis using q x
    by (simp add: settled_def downloadReceipt_simps)
next
  case (PressNewScan vid)
  with f have "w' = startCamera1 (reset w)" "ps' = ps"
    by (simp_all split: if_splits)
  then show ?thesis using q
    by (simp add: settled_def startCamera1_simps reset_simps)
next
  case (Settled i)
  with f have i: "i < length ps" by (simp split: if_splits)
  with q obtain env st where ps: "ps = [(env, st)]" and i0: "i = 0"
    by (cases ps) (auto simp add: settled_def)
  from q ps have a: "analyzing w" and r: "result w = JNull \<or> truthy (result w)"
    by (simp_all add: settled_def)
  show ?thesis
  proof (cases st)
    case AwaitBlob
    show ?thesis
    proof (cases "encoded1 env w")
      case (Finished y)
      with f Settled ps i0 AwaitBlob
      have "rendered1 (video_on_stop env) w y [] cams = Next (w', ps', cams')" by simp
      from rendered1_Next [OF this] show ?thesis
        using x r encoded1_shape(1) [OF Finished] by (auto simp add: settled_def)
    next
      case (Encoding y)
      then show ?thesis using encoded1_shape(3) [of env w y] by simp
    next
      case (Uploading y)
      with f Settled ps i0 AwaitBlob
      have "rendered1 (video_on_stop env) w y [(env, AwaitReply)] cams = Next (w', ps', cams')" by simp
      from rendered1_Next [OF this] show ?thesis
        using x r a encoded1_shape(2) [OF Uploading] by (auto simp add: settled_def)
    qed
  next
    case AwaitReply
    with f Settled ps i0
    have "rendered1 (video_on_stop env) w (replied1 env w) [] cams = Next (w', ps', cams')" by simp
    from rendered1_Next [OF this] show ?thesis
      using x r replied1_shape(1) [of env w] replied1_shape(2) [of w env]
        replied1_shape(3) [of w env]
      by (auto simp add: settled_def)
  qed
qed

lemma reachable1_settled:
  "reachable1 s \<Longrightarrow> settled s \<and> \<not> (capturing (fst s) \<and> truthy (result (fst s)))"
proof (induction rule: reachable1.induct)
  case start1
  then show ?case by (simp add: settled_def init1_def)
next
  case (step1 s e s')
  obtain w ps cams where s: "s = (w, ps, cams)" by (cases s)
  obtain w' ps' cams' where s': "s' = (w', ps', cams')" by (cases s')
  from step1 s s' show ?case using fire1_keeps [of w ps cams e w' ps' cams'] by simp
qed

lemma reachable1_apart: "reachable1 s \<Longrightarrow> apart (fst s)"
  using reachable1_settled [of s] by (auto simp add: apart_def settled_def)

lemma run_append: "run f (es @ [e]) s = (case run f es s of Next s' \<Rightarrow> f e s' | Refused \<Rightarrow> Refused | Crashed \<Rightarrow> Crashed)"
  by (induction es arbitrary: s) (auto split: step.splits)

lemma run_reachable2: "run fire2 es (init2, [], 0) = Next s \<Longrightarrow> reachable2 s"
proof (induction es arbitrary: s rule: rev_induct)
  case Nil
  then show ?case using reachable2.start2 by auto
next
  case (snoc e es)
  then show ?case
    by (auto simp add: run_append split: step.splits intro: reachable2.step2)
qed

section \<open>The claims\<close>

subsection \<open>C1: a successful reply\<close>



subsection \<open>C2: capturing before a frame is buffered\<close>

text \<open>
  C2 as stated fails in the first component, which has no readiness check: with a video
  element that has metadata only (\<open>readyState\<close> 1) it sets \<open>analyzing\<close>, encodes and sends
  the POST.
\<close>

theorem capture_before_first_frame_counterexample:
  "begin1 unbuffered_env capture_world1 =
     Inr (Encoding \<lparr>capturing = True, analyzing = True, result = JNull, error = JNull,
                     trace = []\<rparr>) \<and>
   captureAndAnalyze1 unbuffered_env capture_world1 =
     Inr \<lparr>capturing = True, analyzing = False, result = JNull,
          error = JStr ''Failed to analyze. Please try again.'',
          trace = [Post ''https://food-recognition-backend-rzsl.onrender.com/analyze''
                     \<lparr>bsize = 2048\<rparr> ''capture.jpg'' 30000]\<rparr>"
  by (simp add: captureAndAnalyze1_def begin1_def encoded1_def replied1_def caught_inner1_def
      server_error_def Error_def js_or_def emit_def post_request_def API_URL_def
      unbuffered_env_def capture_world1_def startCamera1_def init1_def)

text \<open>
  C2, amended. In the second component an invocation that finds no video or canvas element,
  or a video whose \<open>readyState\<close> is not \<open>HAVE_ENOUGH_DATA\<close>, ends in its first stretch with
  the message "Camera not ready" or "Video not ready. Please wait a moment." and changes
  nothing else: no request, \<open>analyzing\<close> untouched. The first component, given both
  elements and a drawing context, sets \<open>analyzing\<close> and goes on to encode whatever the
  \<open>readyState\<close> is.
\<close>

theorem not_ready_fails_fast:
  assumes "video env = None \<or> canvas env = None \<or>
           (\<exists>v. video env = Some v \<and> readyState v \<noteq> HAVE_ENOUGH_DATA)"
  shows "begin2 env w = Finished (captureAndAnalyze2 env w) \<and>
         captureAndAnalyze2 env w =
           w\<lparr>error := JStr (if video env = None \<or> canvas env = None then ''Camera not ready''
                             else ''Video not ready. Please wait a moment.'')\<rparr> \<and>
         (\<forall>v c. video env1 = Some v \<and> canvas env1 = Some c \<and> context2d c \<longrightarrow>
            begin1 env1 w1 =
              Inr (Encoding (w1\<lparr>analyzing := True, error := JNull, result := JNull\<rparr>)))"
  using assms
  by (auto simp add: captureAndAnalyze2_def begin2_def begin1_def split: option.splits)

text \<open>C2, amended, on a video element with metadata only.\<close>

theorem not_ready_fails_fast_witness:
  "captureAndAnalyze2 unbuffered_env capture_world2 =
     capture_world2\<lparr>error := JStr ''Video not ready. Please wait a moment.''\<rparr> \<and>
   trace (captureAndAnalyze2 unbuffered_env capture_world2) = [] \<and>
   \<not> analyzing (captureAndAnalyze2 unbuffered_env capture_world2) \<and>
   begin1 unbuffered_env capture_world1 =
     Inr (Encoding (capture_world1\<lparr>analyzing := True, error := JNull, result := JNull\<rparr>))"
proof -
  have h: "video unbuffered_env = None \<or> canvas unbuffered_env = None \<or>
           (\<exists>v. video unbuffered_env = Some v \<and> readyState v \<noteq> HAVE_ENOUGH_DATA)"
    by (simp add: unbuffered_env_def HAVE_ENOUGH_DATA_def)
  have e: "video unbuffered_env =
             Some \<lparr>readyState = 1, videoWidth = 1280, videoHeight = 720, srcObject = Some 7\<rparr> \<and>
           canvas unbuffered_env = Some \<lparr>context2d = True\<rparr>"
    by (simp add: unbuffered_env_def)
  show ?thesis
    using not_ready_fails_fast [OF h, of capture_world2 unbuffered_env capture_world1] e
    by (simp add: capture_world2_def startCamera2_def init2_def)
qed

subsection \<open>C3: a failed reply\<close>

text \<open>
  C3. When the POST has been issued and resolves with a falsy \<open>success\<close> or is rejected
  (time-out, network failure, HTTP error), \<open>captureAndAnalyze\<close> of either component ends with
  a truthy \<open>error\<close>, \<open>result\<close> null, \<open>analyzing\<close> false and \<open>capturing\<close> as it was before the
  invocation; the error is a non-empty string whenever the rejection carries no response
  body, as time-outs and network failures do.
\<close>

theorem failed_reply_sets_error:
  assumes "(\<exists>d. reply env = Resolved d \<and> \<not> truthy (get_prop d ''success'')) \<or>
           (\<exists>e. reply env = Rejected e)"
  shows "(begin1 env w1 = Inr p \<and> resume1 env p = Uploading u1 \<longrightarrow>
            (\<exists>w'. captureAndAnalyze1 env w1 = Inr w' \<and> truthy (error w') \<and> result w' = JNull \<and>
                  capturing w' = capturing w1 \<and> \<not> analyzing w' \<and>
                  (response (null_deref env) = None \<and>
                   (\<forall>e. reply env = Rejected e \<longrightarrow> response e = None) \<longrightarrow>
                     (\<exists>m. error w' = JStr m \<and> m \<noteq> [])))) \<and>
         (resume2 env (begin2 env w2) = Uploading u2 \<longrightarrow>
            (\<exists>w'. captureAndAnalyze2 env w2 = w' \<and> truthy (error w') \<and> result w' = JNull \<and>
                  capturing w' = capturing w2 \<and> \<not> analyzing w' \<and> stream w' = stream w2 \<and>
                  (response (null_deref env) = None \<and>
                   (\<forall>e. reply env = Rejected e \<longrightarrow> response e = None) \<longrightarrow>
                     (\<exists>m. error w' = JStr m \<and> m \<noteq> []))))"
proof (intro conjI impI)
  assume a: "begin1 env w1 = Inr p \<and> resume1 env p = Uploading u1"
  then have c: "captureAndAnalyze1 env w1 = Inr (replied1 env u1)"
    by (simp add: capture1_upload)
  have u: "capturing u1 = capturing w1 \<and> result u1 = JNull"
    using a upload1_world [of env w1 p u1] by simp
  have t: "response (null_deref env) = None \<and>
           (\<forall>e. reply env = Rejected e \<longrightarrow> response e = None) \<longrightarrow>
             (\<exists>m. error (replied1 env u1) = JStr m \<and> m \<noteq> [])"
    using assms replied1_text [of env u1] by auto
  show "\<exists>w'. captureAndAnalyze1 env w1 = Inr w' \<and> truthy (error w') \<and> result w' = JNull \<and>
                  capturing w' = capturing w1 \<and> \<not> analyzing w' \<and>
                  (response (null_deref env) = None \<and>
                   (\<forall>e. reply env = Rejected e \<longrightarrow> response e = None) \<longrightarrow>
                     (\<exists>m. error w' = JStr m \<and> m \<noteq> []))"
    using c u t replied1_failure [OF assms, of u1] by simp
next
  assume a: "resume2 env (begin2 env w2) = Uploading u2"
  then have c: "captureAndAnalyze2 env w2 = replied2 env u2"
    by (simp add: capture2_upload)
  have u: "capturing u2 = capturing w2 \<and> result u2 = JNull \<and> stream u2 = stream w2"
    using upload2_world [OF a] by simp
  have t: "response (null_deref env) = None \<and>
           (\<forall>e. reply env = Rejected e \<longrightarrow> response e = None) \<longrightarrow>
             (\<exists>m. error (replied2 env u2) = JStr m \<and> m \<noteq> [])"
    using assms replied2_text [of env u2] by auto
  show "\<exists>w'. captureAndAnalyze2 env w2 = w' \<and> truthy (error w') \<and> result w' = JNull \<and>
                  capturing w' = capturing w2 \<and> \<not> analyzing w' \<and> stream w' = stream w2 \<and>
                  (response (null_deref env) = None \<and>
                   (\<forall>e. reply env = Rejected e \<longrightarrow> response e = None) \<longrightarrow>
                     (\<exists>m. error w' = JStr m \<and> m \<noteq> []))"
    using c u t replied2_failure [OF assms, of u2] by simp
qed

text \<open>C3 on a request that times out, in both components.\<close>

theorem failed_reply_sets_error_witness:
  "(\<exists>e. reply timeout_env = Rejected e) \<and>
   (\<exists>w'. captureAndAnalyze1 timeout_env capture_world1 = Inr w' \<and> truthy (error w') \<and>
         result w' = JNull \<and> capturing w' \<and> \<not> analyzing w') \<and>
   truthy (error (captureAndAnalyze2 timeout_env capture_world2)) \<and>
   result (captureAndAnalyze2 timeout_env capture_world2) = JNull \<and>
   capturing (captureAndAnalyze2 timeout_env capture_world2) \<and>
   \<not> analyzing (captureAndAnalyze2 timeout_env capture_world2) \<and>
   (\<exists>m. error (captureAndAnalyze2 timeout_env capture_world2) = JStr m \<and> m \<noteq> [])"
proof -
  let ?w1 = "capture_world1\<lparr>analyzing := True, error := JNull, result := JNull\<rparr>"
  let ?w2 = "capture_world2\<lparr>analyzing := True, error := JNull, result := JNull\<rparr>"
  let ?post = "post_request timeout_env \<lparr>bsize = 2048\<rparr>"
  have h: "(\<exists>d. reply timeout_env = Resolved d \<and> \<not> truthy (get_prop d ''success'')) \<or>
           (\<exists>e. reply timeout_env = Rejected e)"
    by (simp add: timeout_env_def)
  have b1: "begin1 timeout_env capture_world1 = Inr (Encoding ?w1)"
    by (simp add: begin1_def timeout_env_def sample_env_def)
  have r1: "resume1 timeout_env (Encoding ?w1) = Uploading (emit ?post ?w1)"
    by (simp add: encoded1_def timeout_env_def sample_env_def)
  have r2: "resume2 timeout_env (begin2 timeout_env capture_world2) = Uploading (emit ?post ?w2)"
    by (simp add: begin2_def encoded2_def timeout_env_def sample_env_def sample_video_def
        HAVE_ENOUGH_DATA_def)
  have c1: "capturing capture_world1" by (simp add: capture_world1_def startCamera1_def)
  have c2: "capturing capture_world2" by (simp add: capture_world2_def startCamera2_def)
  have n: "response (null_deref timeout_env) = None \<and>
           (\<forall>e. reply timeout_env = Rejected e \<longrightarrow> response e = None)"
    by (simp add: timeout_env_def sample_env_def Error_def)
  show ?thesis
    using failed_reply_sets_error [OF h,
        of capture_world1 "Encoding ?w1" "emit ?post ?w1" capture_world2 "emit ?post ?w2"]
      h b1 r1 r2 c1 c2 n
    by (auto simp add: timeout_env_def)
qed

subsection \<open>C4: capture mode, result and \<open>analyzing\<close>\<close>

text \<open>
  C4. In the second component capture mode and a stored result come to hold together
  through rendered buttons alone. Start Camera is pressed three times while the camera
  requests are pending. The first grant enters capture mode; the second finds the video
  element rendered and binds its stream; a photo is taken and analysed with success, which
  stores the result and leaves capture mode with one camera request still parked. When that
  request is granted, lines 345 to 349 set \<open>capturing\<close> without looking at \<open>result\<close>.
\<close>

theorem late_grant_sets_capturing_over_result:
  "run fire2
     [PressStart None, PressStart None, PressStart None,
      CameraSettled 0 (Granted 5) None,
      CameraSettled 0 (Granted 7) (Some sample_video),
      PressCapture sample_env, Settled 0, Settled 0]
     (init2, [], 0) =
     Next (\<lparr>capturing = False, analyzing = False, result = sample_payload, error = JNull,
            trace = [SetSrcObject 7, StopTracks 5, post_request sample_env \<lparr>bsize = 2048\<rparr>,
                     StopTracks 7, StopTracks 7],
            stream = None\<rparr>, [], 1) \<and>
   run fire2
     [PressStart None, PressStart None, PressStart None,
      CameraSettled 0 (Granted 5) None,
      CameraSettled 0 (Granted 7) (Some sample_video),
      PressCapture sample_env, Settled 0, Settled 0,
      CameraSettled 0 (Granted 9) None]
     (init2, [], 0) =
     Next (\<lparr>capturing = True, analyzing = False, result = sample_payload, error = JNull,
            trace = [SetSrcObject 7, StopTracks 5, post_request sample_env \<lparr>bsize = 2048\<rparr>,
                     StopTracks 7, StopTracks 7],
            stream = Some 9\<rparr>, [], 0) \<and>
   sample_payload \<noteq> JNull"
  by (simp add: startCamera2_begin_def startCamera2_settle_def commit2_def resume_closed2_def
      begin2_def encoded2_def replied2_def stopCamera2_def emit_def HAVE_ENOUGH_DATA_def
      sample_env_def sample_video_def sample_payload_def init2_def)

subsection \<open>C5: camera access denied\<close>

text \<open>
  C5 as stated fails: the first component sets \<open>capturing\<close> when \<open>startCamera\<close> is called, so
  capture mode is presented until the rejection arrives, and the second component leaves
  \<open>capturing\<close> true when it is invoked in capture mode.
\<close>

theorem denied_camera_counterexample:
  "capturing (startCamera1 init1) \<and>
   offered CaptureBtn (startCamera1 init1) \<and>
   \<not> capturing (camera_effect1 (Some sample_video) denied (startCamera1 init1)) \<and>
   capturing (startCamera2 denied True capture_world2)"
  by (simp add: startCamera1_def init1_def camera_effect1_def camera_failed1_def denied_def
      startCamera2_def capture_world2_def init2_def)

text \<open>
  C5, amended. A rejected camera request sets the error to the fixed, non-empty message
  about camera permissions. The first component has set \<open>capturing\<close> to true by then and
  sets it back to false; the second component changes nothing but the error, so \<open>capturing\<close>
  ends false when it was false before.
\<close>

theorem denied_camera_sets_error:
  "capturing (startCamera1 w1) \<and>
   camera_effect1 vid (Denied e) (startCamera1 w1) =
     w1\<lparr>error := JStr ''Failed to access camera. Please ensure camera permissions are granted.'',
        capturing := False\<rparr> \<and>
   startCamera2 (Denied e) ref w2 =
     w2\<lparr>error := JStr ''Failed to access camera. Please ensure camera permissions are granted.''\<rparr> \<and>
   truthy (JStr ''Failed to access camera. Please ensure camera permissions are granted.'')"
  by (simp add: startCamera1_def camera_effect1_def camera_failed1_def startCamera2_def)

text \<open>C5, amended, from the initial state of each component.\<close>

theorem denied_camera_sets_error_witness:
  "camera_effect1 (Some sample_video) denied (startCamera1 init1) =
     init1\<lparr>error := JStr ''Failed to access camera. Please ensure camera permissions are granted.''\<rparr> \<and>
   startCamera2 denied False init2 =
     init2\<lparr>error := JStr ''Failed to access camera. Please ensure camera permissions are granted.''\<rparr>"
  using denied_camera_sets_error [of init1 "Some sample_video" "Error ''Permission denied''"
      False init2]
  by (simp add: denied_def init1_def)

subsection \<open>C6: an empty encoded frame\<close>

text \<open>
  C6. When \<^verbatim>\<open>toBlob\<close> delivers no blob or a blob of zero bytes, an invocation that has reached
  the encoding ends with the error "Failed to capture photo", \<open>analyzing\<close> false and \<open>result\<close>
  null, and no invocation with such a blob adds anything to the trace: no request is sent.
\<close>

theorem empty_blob_fails_locally:
  assumes "encoded env = None \<or> (\<exists>b. encoded env = Some b \<and> bsize b = 0)"
  shows "(begin1 env w1 = Inr (Encoding e1) \<longrightarrow>
            captureAndAnalyze1 env w1 =
              Inr (w1\<lparr>analyzing := False, result := JNull,
                      error := JStr ''Failed to capture photo''\<rparr>)) \<and>
         (begin2 env w2 = Encoding e2 \<longrightarrow>
            captureAndAnalyze2 env w2 =
              w2\<lparr>analyzing := False, result := JNull, error := JStr ''Failed to capture photo''\<rparr>) \<and>
         (\<forall>w'. captureAndAnalyze1 env w1 = Inr w' \<longrightarrow> trace w' = trace w1) \<and>
         trace (captureAndAnalyze2 env w2) = trace w2"
proof (intro conjI impI allI)
  assume b: "begin1 env w1 = Inr (Encoding e1)"
  then have "e1 = w1\<lparr>analyzing := True, error := JNull, result := JNull\<rparr>"
    by (simp add: begin1_Encoding)
  then show "captureAndAnalyze1 env w1 =
      Inr (w1\<lparr>analyzing := False, result := JNull, error := JStr ''Failed to capture photo''\<rparr>)"
    using assms b
    by (auto simp add: captureAndAnalyze1_def encoded1_def)
next
  assume b: "begin2 env w2 = Encoding e2"
  then have "e2 = w2\<lparr>analyzing := True, error := JNull, result := JNull\<rparr>"
    by (simp add: begin2_Encoding)
  then show "captureAndAnalyze2 env w2 =
      w2\<lparr>analyzing := False, result := JNull, error := JStr ''Failed to capture photo''\<rparr>"
    using assms b
    by (auto simp add: captureAndAnalyze2_def encoded2_def caught2_def Error_def js_or_def)
next
  fix w' assume "captureAndAnalyze1 env w1 = Inr w'"
  then show "trace w' = trace w1"
    using assms
    by (auto simp add: captureAndAnalyze1_def begin1_def encoded1_def caught_outer1_def
        Let_def split: option.splits if_splits)
next
  show "trace (captureAndAnalyze2 env w2) = trace w2"
    using assms
    by (auto simp add: captureAndAnalyze2_def begin2_def encoded2_def caught2_def
        Let_def split: option.splits if_splits prod.splits)
qed

text \<open>C6 on a blob of zero bytes, in both components.\<close>

theorem empty_blob_fails_locally_witness:
  "(encoded empty_blob_env = None \<or> (\<exists>b. encoded empty_blob_env = Some b \<and> bsize b = 0)) \<and>
   captureAndAnalyze1 empty_blob_env capture_world1 =
     Inr (capture_world1\<lparr>analyzing := False, result := JNull,
            error := JStr ''Failed to capture photo''\<rparr>) \<and>
   captureAndAnalyze2 empty_blob_env capture_world2 =
     capture_world2\<lparr>analyzing := False, result := JNull,
       error := JStr ''Failed to capture photo''\<rparr> \<and>
   trace (captureAndAnalyze2 empty_blob_env capture_world2) = trace capture_world2"
proof -
  let ?w1 = "capture_world1\<lparr>analyzing := True, error := JNull, result := JNull\<rparr>"
  let ?w2 = "capture_world2\<lparr>analyzing := True, error := JNull, result := JNull\<rparr>"
  have h: "encoded empty_blob_env = None \<or>
           (\<exists>b. encoded empty_blob_env = Some b \<and> bsize b = 0)"
    by (simp add: empty_blob_env_def)
  have b1: "begin1 empty_blob_env capture_world1 = Inr (Encoding ?w1)"
    by (simp add: begin1_def empty_blob_env_def sample_env_def)
  have b2: "begin2 empty_blob_env capture_world2 = Encoding ?w2"
    by (simp add: begin2_def empty_blob_env_def sample_env_def sample_video_def
        HAVE_ENOUGH_DATA_def)
  show ?thesis
    using empty_blob_fails_locally [OF h, of capture_world1 ?w1 capture_world2 ?w2] h b1 b2
    by simp
qed

subsection \<open>C7: which message a backend failure shows\<close>

text \<open>
  C7 as stated fails: a reply that resolves with \<open>success\<close> false and an \<open>error\<close> text of the
  server shows the fixed message "Failed to analyze image" in both components.
\<close>

theorem server_message_ignored_counterexample:
  "reply refused_env =
     Resolved (JObj [(''success'', JBool False), (''error'', JStr ''No food detected'')]) \<and>
   captureAndAnalyze1 refused_env capture_world1 =
     Inr \<lparr>capturing = True, analyzing = False, result = JNull,
          error = JStr ''Failed to analyze image'',
          trace = [Post ''https://food-recognition-backend-rzsl.onrender.com/analyze''
                     \<lparr>bsize = 2048\<rparr> ''capture.jpg'' 30000]\<rparr> \<and>
   captureAndAnalyze2 refused_env capture_world2 =
     \<lparr>capturing = True, analyzing = False, result = JNull,
      error = JStr ''Failed to analyze image'',
      trace = [Post ''https://food-recognition-backend-rzsl.onrender.com/analyze''
                 \<lparr>bsize = 2048\<rparr> ''capture.jpg'' 30000],
      stream = Some 7\<rparr>"
  by (simp add: captureAndAnalyze1_def begin1_def encoded1_def replied1_def
      captureAndAnalyze2_def begin2_def encoded2_def replied2_def
      emit_def post_request_def API_URL_def HAVE_ENOUGH_DATA_def
      refused_env_def sample_env_def sample_video_def
      capture_world1_def startCamera1_def init1_def
      capture_world2_def startCamera2_def init2_def)

text \<open>
  C7, amended. After a rejected POST the first component shows the \<open>error\<close> field of the
  response body when that is truthy and "Failed to analyze. Please try again." otherwise;
  the second component does the same when the message of the thrown error is empty. A reply
  that resolves with a falsy \<open>success\<close> shows "Failed to analyze image" in both.
\<close>

theorem backend_failure_message:
  "(begin1 env w1 = Inr p \<and> resume1 env p = Uploading u1 \<longrightarrow>
      (\<forall>e. reply env = Rejected e \<longrightarrow>
         (\<exists>w'. captureAndAnalyze1 env w1 = Inr w' \<and>
               error w' = (if truthy (server_error e) then server_error e
                           else JStr ''Failed to analyze. Please try again.''))) \<and>
      (\<forall>d. reply env = Resolved d \<and> \<not> nullish d \<and> \<not> truthy (get_prop d ''success'') \<longrightarrow>
         (\<exists>w'. captureAndAnalyze1 env w1 = Inr w' \<and> error w' = JStr ''Failed to analyze image''))) \<and>
   (resume2 env (begin2 env w2) = Uploading u2 \<longrightarrow>
      (\<forall>e. reply env = Rejected e \<and> message e = [] \<longrightarrow>
         error (captureAndAnalyze2 env w2) =
           (if truthy (server_error e) then server_error e
            else JStr ''Failed to analyze. Please try again.'')) \<and>
      (\<forall>d. reply env = Resolved d \<and> \<not> nullish d \<and> \<not> truthy (get_prop d ''success'') \<longrightarrow>
         error (captureAndAnalyze2 env w2) = JStr ''Failed to analyze image''))"
proof (intro conjI impI allI)
  fix e assume a: "begin1 env w1 = Inr p \<and> resume1 env p = Uploading u1"
    and r: "reply env = Rejected e"
  from a have "captureAndAnalyze1 env w1 = Inr (replied1 env u1)"
    by (simp add: capture1_upload)
  then show "\<exists>w'. captureAndAnalyze1 env w1 = Inr w' \<and>
               error w' = (if truthy (server_error e) then server_error e
                           else JStr ''Failed to analyze. Please try again.'')"
    using r by (simp add: replied1_def caught_inner1_def js_or_def)
next
  fix d assume a: "begin1 env w1 = Inr p \<and> resume1 env p = Uploading u1"
    and r: "reply env = Resolved d \<and> \<not> nullish d \<and> \<not> truthy (get_prop d ''success'')"
  from a have "captureAndAnalyze1 env w1 = Inr (replied1 env u1)"
    by (simp add: capture1_upload)
  then show "\<exists>w'. captureAndAnalyze1 env w1 = Inr w' \<and> error w' = JStr ''Failed to analyze image''"
    using r by (simp add: replied1_def)
next
  fix e assume a: "resume2 env (begin2 env w2) = Uploading u2"
    and r: "reply env = Rejected e \<and> message e = []"
  from a have "captureAndAnalyze2 env w2 = replied2 env u2"
    by (rule capture2_upload)
  then show "error (captureAndAnalyze2 env w2) =
           (if truthy (server_error e) then server_error e
            else JStr ''Failed to analyze. Please try again.'')"
    using r by (simp add: replied2_def caught2_def js_or_def)
next
  fix d assume a: "resume2 env (begin2 env w2) = Uploading u2"
    and r: "reply env = Resolved d \<and> \<not> nullish d \<and> \<not> truthy (get_prop d ''success'')"
  from a have "captureAndAnalyze2 env w2 = replied2 env u2"
    by (rule capture2_upload)
  then show "error (captureAndAnalyze2 env w2) = JStr ''Failed to analyze image''"
    using r by (simp add: replied2_def)
qed

text \<open>C7, amended, on an HTTP error with a body, a time-out and a refusal.\<close>

theorem backend_failure_message_witness:
  "(\<exists>w'. captureAndAnalyze1 http_error_env capture_world1 = Inr w' \<and>
         error w' = JStr ''Model unavailable'') \<and>
   (\<exists>w'. captureAndAnalyze1 timeout_env capture_world1 = Inr w' \<and>
         error w' = JStr ''Failed to analyze. Please try again.'') \<and>
   error (captureAndAnalyze2 http_error_env capture_world2) = JStr ''Model unavailable'' \<and>
   error (captureAndAnalyze2 refused_env capture_world2) = JStr ''Failed to analyze image''"
proof -
  let ?w1 = "capture_world1\<lparr>analyzing := True, error := JNull, result := JNull\<rparr>"
  let ?w2 = "capture_world2\<lparr>analyzing := True, error := JNull, result := JNull\<rparr>"
  let ?e = "\<lparr>message = [], response = Some (JObj [(''error'', JStr ''Model unavailable'')])\<rparr>"
  let ?d = "JObj [(''success'', JBool False), (''error'', JStr ''No food detected'')]"
  have b1: "begin1 env capture_world1 = Inr (Encoding ?w1)"
    if "env \<in> {http_error_env, timeout_env, refused_env}" for env
    using that
    by (auto simp add: begin1_def http_error_env_def timeout_env_def refused_env_def
        sample_env_def)
  have r1: "resume1 env (Encoding ?w1) = Uploading (emit (post_request env \<lparr>bsize = 2048\<rparr>) ?w1)"
    if "env \<in> {http_error_env, timeout_env, refused_env}" for env
    using that
    by (auto simp add: encoded1_def http_error_env_def timeout_env_def refused_env_def
        sample_env_def)
  have r2: "resume2 env (begin2 env capture_world2) =
              Uploading (emit (post_request env \<lparr>bsize = 2048\<rparr>) ?w2)"
    if "env \<in> {http_error_env, timeout_env, refused_env}" for env
    using that
    by (auto simp add: begin2_def encoded2_def http_error_env_def timeout_env_def
        refused_env_def sample_env_def sample_video_def HAVE_ENOUGH_DATA_def)
  have k1: "reply http_error_env = Rejected ?e \<and> message ?e = [] \<and>
            server_error ?e = JStr ''Model unavailable''"
    by (simp add: http_error_env_def server_error_def)
  have k2: "reply timeout_env = Rejected (Error ''timeout of 30000ms exceeded'') \<and>
            server_error (Error ''timeout of 30000ms exceeded'') = JUndefined"
    by (simp add: timeout_env_def server_error_def Error_def)
  have k3: "reply refused_env = Resolved ?d \<and> \<not> nullish ?d \<and> \<not> truthy (get_prop ?d ''success'')"
    by (simp add: refused_env_def)
  have a: "\<exists>w'. captureAndAnalyze1 http_error_env capture_world1 = Inr w' \<and>
         error w' = JStr ''Model unavailable''"
    using backend_failure_message [of http_error_env capture_world1 "Encoding ?w1"
        "emit (post_request http_error_env \<lparr>bsize = 2048\<rparr>) ?w1" capture_world2
        "emit (post_request http_error_env \<lparr>bsize = 2048\<rparr>) ?w2"]
      b1 [of http_error_env] r1 [of http_error_env] k1
    by simp
  have b: "\<exists>w'. captureAndAnalyze1 timeout_env capture_world1 = Inr w' \<and>
         error w' = JStr ''Failed to analyze. Please try again.''"
    using backend_failure_message [of timeout_env capture_world1 "Encoding ?w1"
        "emit (post_request timeout_env \<lparr>bsize = 2048\<rparr>) ?w1" capture_world2
        "emit (post_request timeout_env \<lparr>bsize = 2048\<rparr>) ?w2"]
      b1 [of timeout_env] r1 [of timeout_env] k2
    by simp
  have c: "error (captureAndAnalyze2 http_error_env capture_world2) = JStr ''Model unavailable''"
    using backend_failure_message [of http_error_env capture_world1 "Encoding ?w1"
        "emit (post_request http_error_env \<lparr>bsize = 2048\<rparr>) ?w1" capture_world2
        "emit (post_request http_error_env \<lparr>bsize = 2048\<rparr>) ?w2"]
      r2 [of http_error_env] k1
    by simp
  have d: "error (captureAndAnalyze2 refused_env capture_world2) = JStr ''Failed to analyze image''"
    using backend_failure_message [of refused_env capture_world1 "Encoding ?w1"
        "emit (post_request refused_env \<lparr>bsize = 2048\<rparr>) ?w1" capture_world2
        "emit (post_request refused_env \<lparr>bsize = 2048\<rparr>) ?w2"]
      r2 [of refused_env] k3
    by simp
  show ?thesis using a b c d by simp
qed

subsection \<open>C8: downloading the receipt\<close>

text \<open>
  C8. \<open>downloadReceipt\<close> changes nothing when \<open>result\<close> is null (or otherwise falsy); with a
  result it saves one file whose only part is \<open>result.receipt_html\<close>, which for an object
  holding the string \<open>html\<close> under that name is exactly \<open>html\<close>.
\<close>

theorem downloadReceipt_content:
  "(\<not> truthy (result w) \<longrightarrow> downloadReceipt now w = w) \<and>
   (truthy (result w) \<longrightarrow>
      downloadReceipt now w =
        w\<lparr>trace := trace w @ [Save now [get_prop (result w) ''receipt_html''] ''text/html'']\<rparr>) \<and>
   (\<forall>ps html. result w = JObj ps \<and> map_of ps ''receipt_html'' = Some (JStr html) \<longrightarrow>
      downloadReceipt now w = w\<lparr>trace := trace w @ [Save now [JStr html] ''text/html'']\<rparr>)"
  by (simp add: downloadReceipt_def emit_def)

text \<open>C8 without a result and with the sample reply stored.\<close>

theorem downloadReceipt_content_witness:
  "downloadReceipt 1700000000000 init2 = init2 \<and>
   trace (downloadReceipt 1700000000000 (captureAndAnalyze2 sample_env capture_world2)) =
     trace (captureAndAnalyze2 sample_env capture_world2) @
       [Save 1700000000000 [JStr ''<html>receipt</html>''] ''text/html'']"
proof -
  let ?w = "captureAndAnalyze2 sample_env capture_world2"
  have n: "\<not> truthy (result init2)" by (simp add: init2_def)
  have r: "result ?w = sample_payload"
    by (simp add: captureAndAnalyze2_def begin2_def encoded2_def replied2_def stopCamera2_def
        sample_env_def sample_video_def sample_payload_def HAVE_ENOUGH_DATA_def emit_def
        capture_world2_def startCamera2_def init2_def)
  have m: "map_of [(''success'', JBool True),
           (''items'', JArr [JObj [(''name'', JStr ''rice''), (''confidence'', JNum 93),
                                   (''price'', JNum 60), (''calories'', JNum 200),
                                   (''protein'', JNum 4), (''carbs'', JNum 45), (''fat'', JNum 1)]]),
           (''totals'', JObj [(''total_price'', JNum 60), (''total_calories'', JNum 200),
                              (''total_protein'', JNum 4), (''total_carbs'', JNum 45),
                              (''total_fat'', JNum 1)]),
           (''timestamp'', JStr ''2024-01-01 12:00''),
           (''receipt_html'', JStr ''<html>receipt</html>'')] ''receipt_html'' =
        Some (JStr ''<html>receipt</html>'')"
    by simp
  show ?thesis
    using downloadReceipt_content [of init2 1700000000000] n
      downloadReceipt_content [of ?w 1700000000000] r m
    unfolding sample_payload_def
    by auto
qed

subsection \<open>C9: reset\<close>

text \<open>
  C9 as stated fails: \<open>reset\<close> after a failed analysis leaves the controller in capture
  mode, holding its stream.
\<close>

theorem reset_in_capture_mode_counterexample:
  "capturing (reset (captureAndAnalyze2 refused_env capture_world2)) \<and>
   stream (reset (captureAndAnalyze2 refused_env capture_world2)) = Some 7 \<and>
   capturing (reset (startCamera1 init1))"
  by (simp add: reset_def captureAndAnalyze2_def begin2_def encoded2_def replied2_def
      emit_def HAVE_ENOUGH_DATA_def refused_env_def sample_env_def sample_video_def
      capture_world2_def startCamera2_def init2_def startCamera1_def init1_def)

text \<open>
  C9, amended. \<open>reset\<close> sets \<open>result\<close> and \<open>error\<close> to null and leaves \<open>capturing\<close>,
  \<open>analyzing\<close>, the trace and the stream as they were; the controller is idle afterwards
  exactly when \<open>capturing\<close> was false before.
\<close>

theorem reset_clears_result_and_error:
  "result (reset w) = JNull \<and> error (reset w) = JNull \<and>
   capturing (reset w) = capturing w \<and> analyzing (reset w) = analyzing w \<and>
   trace (reset w) = trace w \<and> world.more (reset w) = world.more w \<and>
   stream (reset w2) = stream w2"
  by (simp add: reset_def)

text \<open>C9, amended, on the state that holds the sample reply.\<close>

theorem reset_clears_result_and_error_witness:
  "result (reset (captureAndAnalyze2 sample_env capture_world2)) = JNull \<and>
   error (reset (captureAndAnalyze2 sample_env capture_world2)) = JNull \<and>
   capturing (reset (captureAndAnalyze2 sample_env capture_world2)) =
     capturing (captureAndAnalyze2 sample_env capture_world2) \<and>
   stream (reset capture_world2) = Some 7"
  using reset_clears_result_and_error [of "captureAndAnalyze2 sample_env capture_world2"
      capture_world2]
  by (simp add: capture_world2_def startCamera2_def)

subsection \<open>C10: a new submission discards the previous result\<close>

text \<open>
  C10. An invocation that passes the readiness check of the second component, or finds the
  canvas element in the first, has set \<open>result\<close> to null by the end of its first stretch,
  with \<open>error\<close> null when it goes on to encode and with nothing added to the trace; at the
  end \<open>result\<close> is null unless the POST resolved with a truthy \<open>success\<close>, in which case it
  is that payload and \<open>error\<close> is null.
\<close>

theorem new_submission_discards_result:
  "(canvas env = Some c1 \<longrightarrow>
      (\<exists>p w'. begin1 env w1 = Inr p \<and> result (world_of p) = JNull \<and>
              trace (world_of p) = trace w1 \<and>
              (p = Encoding (world_of p) \<longrightarrow> error (world_of p) = JNull) \<and>
              captureAndAnalyze1 env w1 = Inr w' \<and>
              (result w' = JNull \<or>
               error w' = JNull \<and> reply env = Resolved (result w') \<and>
               truthy (get_prop (result w') ''success'')))) \<and>
   (video env = Some v \<and> canvas env = Some c2 \<and> readyState v = HAVE_ENOUGH_DATA \<longrightarrow>
      result (world_of (begin2 env w2)) = JNull \<and>
      trace (world_of (begin2 env w2)) = trace w2 \<and>
      (begin2 env w2 = Encoding (world_of (begin2 env w2)) \<longrightarrow>
         error (world_of (begin2 env w2)) = JNull) \<and>
      (result (captureAndAnalyze2 env w2) = JNull \<or>
       error (captureAndAnalyze2 env w2) = JNull \<and>
       reply env = Resolved (result (captureAndAnalyze2 env w2)) \<and>
       truthy (get_prop (result (captureAndAnalyze2 env w2)) ''success'')))"
proof -
  have one: "\<exists>p w'. begin1 env w1 = Inr p \<and> result (world_of p) = JNull \<and>
              trace (world_of p) = trace w1 \<and>
              (p = Encoding (world_of p) \<longrightarrow> error (world_of p) = JNull) \<and>
              captureAndAnalyze1 env w1 = Inr w' \<and>
              (result w' = JNull \<or>
               error w' = JNull \<and> reply env = Resolved (result w') \<and>
               truthy (get_prop (result w') ''success''))"
    if "canvas env = Some c1"
    using that
    by (cases "reply env")
      (auto simp add: captureAndAnalyze1_def begin1_def encoded1_def replied1_def Let_def
        caught_outer1_def caught_inner1_def stopCamera1_def stop_tracks_of_def emit_def
        split: option.splits)
  have two: "result (world_of (begin2 env w2)) = JNull \<and>
      trace (world_of (begin2 env w2)) = trace w2 \<and>
      (begin2 env w2 = Encoding (world_of (begin2 env w2)) \<longrightarrow>
         error (world_of (begin2 env w2)) = JNull)"
    if "video env = Some v \<and> canvas env = Some c2 \<and> readyState v = HAVE_ENOUGH_DATA"
    using that by (simp add: begin2_def caught2_def Let_def)
  have three: "result (captureAndAnalyze2 env w2) = JNull \<or>
       error (captureAndAnalyze2 env w2) = JNull \<and>
       reply env = Resolved (result (captureAndAnalyze2 env w2)) \<and>
       truthy (get_prop (result (captureAndAnalyze2 env w2)) ''success'')"
    if "video env = Some v \<and> canvas env = Some c2 \<and> readyState v = HAVE_ENOUGH_DATA"
    using that
    by (cases "reply env")
      (auto simp add: captureAndAnalyze2_def begin2_def encoded2_def replied2_def Let_def
        caught2_def stopCamera2_def emit_def split: option.splits)
  show ?thesis using one two three by blast
qed

text \<open>C10 on a time-out that follows a successful analysis.\<close>

theorem new_submission_discards_result_witness:
  "canvas sample_env = Some \<lparr>context2d = True\<rparr> \<and>
   video timeout_env = Some sample_video \<and> readyState sample_video = HAVE_ENOUGH_DATA \<and>
   result (captureAndAnalyze2 sample_env capture_world2) = sample_payload \<and>
   result (captureAndAnalyze2 timeout_env (captureAndAnalyze2 sample_env capture_world2)) = JNull \<and>
   (\<exists>w'. captureAndAnalyze1 timeout_env
            (capture_world1\<lparr>capturing := True, result := sample_payload\<rparr>) = Inr w' \<and>
         result w' = JNull)"
proof -
  let ?w = "captureAndAnalyze2 sample_env capture_world2"
  let ?u = "capture_world1\<lparr>capturing := True, result := sample_payload\<rparr>"
  have h1: "canvas sample_env = Some \<lparr>context2d = True\<rparr>"
    "canvas timeout_env = Some \<lparr>context2d = True\<rparr>"
    by (simp_all add: sample_env_def timeout_env_def)
  have h2: "video timeout_env = Some sample_video \<and>
            canvas timeout_env = Some \<lparr>context2d = True\<rparr> \<and>
            readyState sample_video = HAVE_ENOUGH_DATA"
    by (simp add: timeout_env_def sample_env_def sample_video_def HAVE_ENOUGH_DATA_def)
  have r: "result ?w = sample_payload"
    by (simp add: captureAndAnalyze2_def begin2_def encoded2_def replied2_def stopCamera2_def
        sample_env_def sample_video_def sample_payload_def HAVE_ENOUGH_DATA_def emit_def
        capture_world2_def startCamera2_def init2_def)
  have n: "reply timeout_env \<noteq> Resolved d" for d
    by (simp add: timeout_env_def)
  show ?thesis
    using new_submission_discards_result [of timeout_env "\<lparr>context2d = True\<rparr>" ?u sample_video
        "\<lparr>context2d = True\<rparr>" ?w] h1 h2 r n
    by auto
qed

end
